theory Spec2Isabelle
  imports Complex_Main
begin

section \<open>Shared Store client: keys (api/valkey.py)\<close>

definition JOB_QUEUE_KEY :: string where
  "JOB_QUEUE_KEY = ''avatar:jobs''"

definition CAPTURE_JOB_QUEUE_KEY :: string where
  "CAPTURE_JOB_QUEUE_KEY = ''avatar:capture:jobs''"

definition RESULT_KEY_PREFIX :: string where
  "RESULT_KEY_PREFIX = ''avatar:result:''"

definition CACHE_KEY_PREFIX :: string where
  "CACHE_KEY_PREFIX = ''avatar:cache:''"

text \<open>\<open>int(x)\<close> on a float truncates toward zero.\<close>

definition py_int :: "rat \<Rightarrow> int" where
  "py_int x = (if 0 \<le> x then \<lfloor>x\<rfloor> else \<lceil>x\<rceil>)"

text \<open>
  Rounding to the nearest integer, ties to even. Python formats and rounds a float from
  its exact binary value, correctly rounded, with this rule for ties.
\<close>

definition round_half_even :: "rat \<Rightarrow> int" where
  "round_half_even x =
     (let f = \<lfloor>x\<rfloor>; d = x - of_int f
      in if d < 1 / 2 then f else if 1 / 2 < d then f + 1 else if even f then f else f + 1)"

text \<open>\<open>str(n)\<close> for a non-negative integer.\<close>

definition digit_char :: "nat \<Rightarrow> char" where
  "digit_char d = ''0123456789'' ! (d mod 10)"

function decimal :: "nat \<Rightarrow> string" where
  "decimal n = (if n < 10 then [digit_char n] else decimal (n div 10) @ [digit_char (n mod 10)])"
  by pat_completeness auto
termination
  by (relation "measure (\<lambda>n. n)") auto

text \<open>
  The format \<open>{speed:.2f}\<close>. A speed is a Python float; the requests the Front Door
  accepts carry a finite one (\<open>RenderRequest\<close> bounds it by 0.5 and 2.0), and a finite
  float is modelled by its exact value in \<open>rat\<close>. The result is the sign, the integer
  part and two digits of the magnitude rounded half-even to hundredths; a negative value
  keeps its sign even when it rounds to zero (\<open>-0.00\<close>).
\<close>

definition format_2f :: "rat \<Rightarrow> string" where
  "format_2f x =
     (let q = nat (round_half_even (\<bar>x\<bar> * 100))
      in (if x < 0 then ''-'' else '''') @ decimal (q div 100) @ ''.'' @
         [digit_char (q mod 100 div 10), digit_char (q mod 10)])"

text \<open>
  \<open>hashlib.sha256(content.encode()).hexdigest()\<close> belongs to the Python library, not to
  this repository: it is the parameter \<open>sha256_hexdigest\<close>. Strings are byte strings
  (the text already encoded).
\<close>

definition generate_cache_key :: "(string \<Rightarrow> string) \<Rightarrow> string \<Rightarrow> rat \<Rightarrow> string \<Rightarrow> string" where
  "generate_cache_key sha256_hexdigest voice_id speed text =
     (let content = voice_id @ '':'' @ format_2f speed @ '':'' @ text;
          hash_digest = take 16 (sha256_hexdigest content)
      in CACHE_KEY_PREFIX @ hash_digest)"

text \<open>\<open>generate_render_id\<close> also reads the clock: \<open>time_ns\<close> is \<open>time.time_ns()\<close>.\<close>

definition generate_render_id ::
  "(string \<Rightarrow> string) \<Rightarrow> nat \<Rightarrow> string \<Rightarrow> rat \<Rightarrow> string \<Rightarrow> string" where
  "generate_render_id sha256_hexdigest time_ns voice_id speed text =
     (let content = voice_id @ '':'' @ format_2f speed @ '':'' @ text @ '':'' @ decimal time_ns
      in take 24 (sha256_hexdigest content))"


section \<open>Worker: mouth cues (worker/lipsync.py)\<close>

text \<open>
  Times and weights are Python floats. A finite float is a rational number, so a float
  is modelled by its exact value in \<open>rat\<close>; every float operation computes the exact
  result and rounds it to a float, and that rounding is the parameter \<open>rnd\<close>. What the
  proofs use of it is collected in \<open>float_rounding\<close>: rounding is monotone and leaves
  0, 0.5 and 1, which are floats, unchanged. Infinities and NaN are not modelled
  (\<open>int()\<close> raises on them, and the job fails).
\<close>

definition float_rounding :: "(rat \<Rightarrow> rat) \<Rightarrow> bool" where
  "float_rounding rnd =
     ((\<forall>x y. x \<le> y \<longrightarrow> rnd x \<le> rnd y) \<and> rnd 0 = 0 \<and> rnd (1 / 2) = 1 / 2 \<and> rnd 1 = 1)"

text \<open>\<open>round(x, 2)\<close>: the decimal with two places nearest to \<open>x\<close>, as a float.\<close>

definition py_round2 :: "(rat \<Rightarrow> rat) \<Rightarrow> rat \<Rightarrow> rat" where
  "py_round2 rnd x = rnd (of_int (round_half_even (x * 100)) / 100)"

definition VISEME_MAP :: "string \<rightharpoonup> string" where
  "VISEME_MAP =
     [''A'' \<mapsto> ''AA'', ''B'' \<mapsto> ''EE'', ''C'' \<mapsto> ''EE'', ''D'' \<mapsto> ''AA'', ''E'' \<mapsto> ''OH'',
      ''F'' \<mapsto> ''OO'', ''G'' \<mapsto> ''FF'', ''H'' \<mapsto> ''TH'', ''X'' \<mapsto> ''REST'']"

text \<open>One entry of Rhubarb's \<open>mouthCues\<close>, and one cue of the result.\<close>

record rhubarb_cue =
  cue_start :: rat
  cue_end :: rat
  cue_value :: string

record mouth_cue =
  t_ms :: int
  viseme :: string
  weight :: rat

definition cue_weight :: "(rat \<Rightarrow> rat) \<Rightarrow> rhubarb_cue \<Rightarrow> rat" where
  "cue_weight rnd cue =
     (let start_ms = py_int (rnd (cue_start cue * 1000));
          end_ms = py_int (rnd (cue_end cue * 1000));
          duration_ms = end_ms - start_ms
      in min 1 (rnd (1 / 2 + rnd (of_int duration_ms / 500))))"

definition parse_cue :: "(rat \<Rightarrow> rat) \<Rightarrow> rhubarb_cue \<Rightarrow> mouth_cue" where
  "parse_cue rnd cue =
     \<lparr>t_ms = py_int (rnd (cue_start cue * 1000)),
      viseme = (case VISEME_MAP (cue_value cue) of Some v \<Rightarrow> v | None \<Rightarrow> ''REST''),
      weight = py_round2 rnd (cue_weight rnd cue)\<rparr>"

definition parse_rhubarb_output :: "(rat \<Rightarrow> rat) \<Rightarrow> rhubarb_cue list \<Rightarrow> mouth_cue list" where
  "parse_rhubarb_output rnd raw_cues = map (parse_cue rnd) raw_cues"

section \<open>Front Door: admission control (api/main.py)\<close>

text \<open>
  The module-level counter \<open>_active_requests\<close> is an unbounded Python integer, and the
  ceiling \<open>MAX_CONCURRENT_REQUESTS\<close> is read from the environment, so it is a parameter.
  Both functions run their body under \<open>_request_lock\<close>: each call is one atomic step on
  the counter, and an interleaving of concurrent requests is a sequence of such steps.
\<close>

definition check_concurrency_limit :: "int \<Rightarrow> int \<Rightarrow> bool \<times> int" where
  "check_concurrency_limit MAX_CONCURRENT_REQUESTS active_requests =
     (if active_requests \<ge> MAX_CONCURRENT_REQUESTS then (False, active_requests)
      else (True, active_requests + 1))"

definition release_concurrency_slot :: "int \<Rightarrow> int" where
  "release_concurrency_slot active_requests = max 0 (active_requests - 1)"

text \<open>
  \<open>render_sync\<close> calls \<open>check_concurrency_limit\<close> before its \<open>try\<close> block and raises
  HTTP 429 when it returns False; everything after that runs inside \<open>try ... finally\<close>,
  whose \<open>finally\<close> clause calls \<open>release_concurrency_slot\<close>. The body leaves the
  \<open>try\<close> block in one of four ways.
\<close>

datatype sync_exit =
    ServedFromCache      \<comment> \<open>\<open>return RenderResponse(**cached_result)\<close>\<close>
  | Rendered             \<comment> \<open>\<open>return RenderResponse(**result)\<close>\<close>
  | Timeout504           \<comment> \<open>\<open>wait_for_result\<close> gave None: \<open>raise HTTPException(504)\<close>\<close>
  | UnhandledError       \<comment> \<open>any other exception raised in the body\<close>

datatype http_outcome = Http200 | Http429 | Http504 | Http500

fun exit_outcome :: "sync_exit \<Rightarrow> http_outcome" where
  "exit_outcome ServedFromCache = Http200"
| "exit_outcome Rendered = Http200"
| "exit_outcome Timeout504 = Http504"
| "exit_outcome UnhandledError = Http500"

text \<open>Entry of a synchronous request: either rejected at once, or admitted.\<close>

definition render_sync_enter :: "int \<Rightarrow> int \<Rightarrow> http_outcome option \<times> int" where
  "render_sync_enter MAX_CONCURRENT_REQUESTS active_requests =
     (case check_concurrency_limit MAX_CONCURRENT_REQUESTS active_requests of
        (False, c) \<Rightarrow> (Some Http429, c)
      | (True, c) \<Rightarrow> (None, c))"

text \<open>Exit of an admitted request: the \<open>finally\<close> clause runs on every path.\<close>

definition render_sync_leave :: "sync_exit \<Rightarrow> int \<Rightarrow> http_outcome \<times> int" where
  "render_sync_leave path active_requests =
     (exit_outcome path, release_concurrency_slot active_requests)"

text \<open>
  The Front Door as a transition system. The state is the counter together with the
  number of admitted requests that have not left yet (a ghost component: the code does not
  store it). \<open>Arrive\<close> is a new synchronous request; \<open>Leave p\<close> is an admitted request
  leaving on path \<open>p\<close>, which is possible only while some request is in flight.
\<close>

datatype fd_event = Arrive | Leave sync_exit

fun fd_step :: "int \<Rightarrow> fd_event \<Rightarrow> int \<times> nat \<Rightarrow> (int \<times> nat) option" where
  "fd_step M Arrive (c, n) =
     (case render_sync_enter M c of
        (Some _, c') \<Rightarrow> Some (c', n)
      | (None, c') \<Rightarrow> Some (c', Suc n))"
| "fd_step M (Leave p) (c, n) =
     (if n = 0 then None else Some (snd (render_sync_leave p c), n - 1))"

fun fd_run :: "int \<Rightarrow> fd_event list \<Rightarrow> int \<times> nat \<Rightarrow> (int \<times> nat) option" where
  "fd_run M [] s = Some s"
| "fd_run M (e # es) s = (case fd_step M e s of None \<Rightarrow> None | Some s' \<Rightarrow> fd_run M es s')"

text \<open>Raw calls of the two functions in any order, paired or not.\<close>

datatype slot_op = Acquire | Release

fun slot_step :: "int \<Rightarrow> slot_op \<Rightarrow> int \<Rightarrow> int" where
  "slot_step M Acquire c = snd (check_concurrency_limit M c)"
| "slot_step M Release c = release_concurrency_slot c"

fun slot_run :: "int \<Rightarrow> slot_op list \<Rightarrow> int \<Rightarrow> int" where
  "slot_run M [] c = c"
| "slot_run M (x # xs) c = slot_run M xs (slot_step M x c)"

section \<open>Shared Store: records and operations (api/models.py, api/valkey.py)\<close>

datatype render_status = Pending | Processing | Completed | Failed

record eye_event =
  eye_t_ms :: int
  event_type :: string
  eye_duration_ms :: int
  direction :: "string option"

text \<open>
  The JSON object stored for a render: the ResultRecord under
  \<open>avatar:result:<render_id>\<close> and the CacheEntry under the cache key. A key that is
  absent from the object reads as \<open>None\<close> (and \<open>cached\<close> as False), the defaults of
  \<open>RenderResponse\<close>. Every object the program writes has \<open>render_id\<close> and \<open>status\<close>.
\<close>

record render_result =
  render_id :: string
  status :: render_status
  audio_url :: "string option"
  duration_ms :: "int option"
  mouth_cues :: "mouth_cue list option"
  eye_events :: "eye_event list option"
  cached :: bool
  error :: "string option"
  processing_time_ms :: "int option"

record render_job =
  j_render_id :: string
  j_cache_key :: string
  j_text :: string
  j_voice_id :: string
  j_speed :: rat
  j_audio_base_url :: string

record capture_job =
  cj_job_id :: string
  cj_capture_id :: string
  cj_avatar_id :: string
  cj_capture_path :: string
  cj_avatars_dir :: string

text \<open>
  A queued job. The worker tells the two kinds apart by the \<open>type\<close> field of the JSON
  object: \<open>capture_processing\<close> for a capture job, absent for a render job.
\<close>

datatype job = RenderJob render_job | CaptureJob capture_job

text \<open>The CaptureStatus object under \<open>avatar:capture:status:<job_id>\<close>.\<close>

record capture_status =
  cs_job_id :: "string option"
  cs_status :: string
  cs_progress :: "int option"
  cs_avatar_id :: "string option"
  cs_manifest_url :: "string option"
  cs_zip_url :: "string option"
  cs_error :: "string option"
  cs_logs :: "string list option"

text \<open>
  What the program does to the world outside its own variables, in the order it happens:
  writes to the store and calls of the external tools.
\<close>

datatype effect =
    SetResult string render_result
  | SetCache string render_result
  | PushNotify string
  | SetCaptureStatus string capture_status
  | CallPiper string string
  | CallRhubarb string
  | CallEyeEvents string

text \<open>The two key prefixes that the source writes as string literals.\<close>

definition NOTIFY_KEY_PREFIX :: string where
  "NOTIFY_KEY_PREFIX = ''avatar:notify:''"

definition CAPTURE_JOB_STATUS_PREFIX :: string where
  "CAPTURE_JOB_STATUS_PREFIX = ''avatar:capture:status:''"

text \<open>
  The store. The program builds its keys from four fixed prefixes and two fixed list keys,
  no two of which can give the same key, so the key space is modelled as one map per prefix:
  \<open>results\<close> and \<open>notify\<close> by render identifier, \<open>cache\<close> by the whole cache key,
  \<open>capture_statuses\<close> by job identifier. A list is written leftmost element first.
  Expiry is not modelled: a key that has expired is a key that is absent. \<open>trace\<close> is a
  ghost component, oldest effect first.
\<close>

record valkey =
  results :: "string \<rightharpoonup> render_result"
  cache :: "string \<rightharpoonup> render_result"
  notify :: "string \<rightharpoonup> string list"
  render_queue :: "job list"
  capture_queue :: "job list"
  capture_statuses :: "string \<rightharpoonup> capture_status"
  trace :: "effect list"

definition empty_valkey :: valkey where
  "empty_valkey =
     \<lparr>results = Map.empty, cache = Map.empty, notify = Map.empty, render_queue = [],
      capture_queue = [], capture_statuses = Map.empty, trace = []\<rparr>"

definition get_cached_result :: "string \<Rightarrow> valkey \<Rightarrow> render_result option" where
  "get_cached_result cache_key s = cache s cache_key"

definition set_cached_result :: "string \<Rightarrow> render_result \<Rightarrow> valkey \<Rightarrow> valkey" where
  "set_cached_result cache_key result s =
     s\<lparr>cache := (cache s)(cache_key \<mapsto> result), trace := trace s @ [SetCache cache_key result]\<rparr>"

text \<open>\<open>enqueue_job\<close>: LPUSH on \<open>avatar:jobs\<close>.\<close>

definition enqueue_job :: "job \<Rightarrow> valkey \<Rightarrow> valkey" where
  "enqueue_job job_data s = s\<lparr>render_queue := job_data # render_queue s\<rparr>"

definition set_result :: "string \<Rightarrow> render_result \<Rightarrow> valkey \<Rightarrow> valkey" where
  "set_result rid result s =
     s\<lparr>results := (results s)(rid \<mapsto> result), trace := trace s @ [SetResult rid result]\<rparr>"

definition get_result :: "string \<Rightarrow> valkey \<Rightarrow> render_result option" where
  "get_result rid s = results s rid"

text \<open>\<open>notify_result_ready\<close> and the end of \<open>store_result\<close>: LPUSH of \<open>ready\<close>.\<close>

definition push_notify :: "string \<Rightarrow> valkey \<Rightarrow> valkey" where
  "push_notify rid s =
     s\<lparr>notify := (notify s)(rid \<mapsto> ''ready'' # (case notify s rid of None \<Rightarrow> [] | Some l \<Rightarrow> l)),
       trace := trace s @ [PushNotify rid]\<rparr>"

definition set_json :: "string \<Rightarrow> capture_status \<Rightarrow> valkey \<Rightarrow> valkey" where
  "set_json job_id data s =
     s\<lparr>capture_statuses := (capture_statuses s)(job_id \<mapsto> data),
       trace := trace s @ [SetCaptureStatus job_id data]\<rparr>"

definition get_json :: "string \<Rightarrow> valkey \<Rightarrow> capture_status option" where
  "get_json job_id s = capture_statuses s job_id"

text \<open>
  \<open>push_job\<close>: RPUSH on the list named by \<open>queue_key\<close>. A key other than the two job
  queues names a list that nothing here reads.
\<close>

definition push_job :: "string \<Rightarrow> job \<Rightarrow> valkey \<Rightarrow> valkey" where
  "push_job queue_key job_data s =
     (if queue_key = JOB_QUEUE_KEY then s\<lparr>render_queue := render_queue s @ [job_data]\<rparr>
      else if queue_key = CAPTURE_JOB_QUEUE_KEY then s\<lparr>capture_queue := capture_queue s @ [job_data]\<rparr>
      else s)"

text \<open>
  The worker's \<open>brpop([JOB_QUEUE_KEY, CAPTURE_JOB_QUEUE_KEY], timeout=5)\<close>: the rightmost
  element of the first list, in the order given, that is not empty; \<open>None\<close> when both
  stay empty until the timeout.
\<close>

definition brpop :: "valkey \<Rightarrow> ((string \<times> job) \<times> valkey) option" where
  "brpop s =
     (if render_queue s \<noteq> [] then
        Some ((JOB_QUEUE_KEY, last (render_queue s)), s\<lparr>render_queue := butlast (render_queue s)\<rparr>)
      else if capture_queue s \<noteq> [] then
        Some ((CAPTURE_JOB_QUEUE_KEY, last (capture_queue s)),
              s\<lparr>capture_queue := butlast (capture_queue s)\<rparr>)
      else None)"

section \<open>Worker: capture pipeline (worker/capture_processor.py)\<close>

text \<open>
  \<open>update_job_status\<close>, first as a function of the status object it read: a missing
  object is replaced by \<open>{'logs': []}\<close>, whose \<open>status\<close> and \<open>progress\<close> are set
  at once (so the status given to the fresh object here is never read).
\<close>

definition updated_status :: "string \<Rightarrow> int \<Rightarrow> string \<Rightarrow> capture_status option \<Rightarrow> capture_status" where
  "updated_status st prog log_message status_json =
     (let status_data0 =
            (case status_json of
               Some d \<Rightarrow> d
             | None \<Rightarrow> \<lparr>cs_job_id = None, cs_status = st, cs_progress = None, cs_avatar_id = None,
                        cs_manifest_url = None, cs_zip_url = None, cs_error = None,
                        cs_logs = Some []\<rparr>);
          status_data1 = status_data0\<lparr>cs_status := st, cs_progress := Some prog\<rparr>
      in if log_message \<noteq> [] then
           status_data1\<lparr>cs_logs :=
             Some ((case cs_logs status_data1 of None \<Rightarrow> [] | Some l \<Rightarrow> l) @ [log_message])\<rparr>
         else status_data1)"

definition update_job_status :: "string \<Rightarrow> string \<Rightarrow> int \<Rightarrow> string \<Rightarrow> valkey \<Rightarrow> valkey" where
  "update_job_status job_id st prog log_message s =
     set_json job_id (updated_status st prog log_message (get_json job_id s)) s"

text \<open>
  The external tools of the ten stages. The first three report failure by returning
  False, on which the pipeline raises an exception with a fixed message; the others fail
  by raising, and \<open>Some msg\<close> is the message of the exception. \<open>cleanup_exn\<close> is the
  removal of the normalized video after the completed status has been written. Creating
  the avatar directory, before the \<open>try\<close> block, is taken to succeed.
\<close>

record capture_env =
  normalize_video_ok :: bool
  extract_base_face_ok :: bool
  extract_idle_video_ok :: bool
  anchor_timeline_exn :: "string option"
  viseme_frames_exn :: "string option"
  eye_frames_exn :: "string option"
  masks_exn :: "string option"
  spritesheet_exn :: "string option"
  manifest_exn :: "string option"
  zip_exn :: "string option"
  cleanup_exn :: "string option"

text \<open>The three marks the log lines start with, as UTF-8 bytes.\<close>

definition arrow_mark :: string where
  "arrow_mark = [char_of (0xE2 :: nat), char_of (0x86 :: nat), char_of (0x92 :: nat)]"

definition check_mark :: string where
  "check_mark = [char_of (0xE2 :: nat), char_of (0x9C :: nat), char_of (0x93 :: nat)]"

definition cross_mark :: string where
  "cross_mark = [char_of (0xE2 :: nat), char_of (0x9C :: nat), char_of (0x97 :: nat)]"

text \<open>
  The stages in the order of the source: the progress and the log line written before
  the stage runs, and the error it raises, if any.
\<close>

definition capture_stages :: "capture_env \<Rightarrow> (int \<times> string \<times> string option) list" where
  "capture_stages env =
     [(10, arrow_mark @ '' Normalizing video...'',
         if normalize_video_ok env then None else Some ''Video normalization failed''),
      (20, arrow_mark @ '' Extracting base face...'',
         if extract_base_face_ok env then None else Some ''Base face extraction failed''),
      (30, arrow_mark @ '' Extracting idle loop...'',
         if extract_idle_video_ok env then None else Some ''Idle video extraction failed''),
      (40, arrow_mark @ '' Detecting face landmarks...'', anchor_timeline_exn env),
      (50, arrow_mark @ '' Extracting mouth visemes...'', viseme_frames_exn env),
      (65, arrow_mark @ '' Extracting eye states...'', eye_frames_exn env),
      (75, arrow_mark @ '' Generating masks...'', masks_exn env),
      (85, arrow_mark @ '' Building mouth spritesheet...'', spritesheet_exn env),
      (90, arrow_mark @ '' Writing manifest...'', manifest_exn env),
      (95, arrow_mark @ '' Creating ZIP archive...'', zip_exn env)]"

text \<open>
  Running the stages: each one first records its progress, then runs; the first error
  leaves the \<open>try\<close> block.
\<close>

fun run_stages :: "string \<Rightarrow> (int \<times> string \<times> string option) list \<Rightarrow> valkey \<Rightarrow> string option \<times> valkey" where
  "run_stages job_id [] s = (None, s)"
| "run_stages job_id ((prog, msg, exn) # rest) s =
     (let s1 = update_job_status job_id ''processing'' prog msg s
      in case exn of Some e \<Rightarrow> (Some e, s1) | None \<Rightarrow> run_stages job_id rest s1)"

text \<open>The dictionary \<open>process_capture_job\<close> returns.\<close>

datatype capture_result =
    CaptureCompleted string string string
  | CaptureFailed string

text \<open>The log lines of the two ends of the pipeline.\<close>

definition failure_line :: "string \<Rightarrow> string" where
  "failure_line error_msg = cross_mark @ '' Error: '' @ error_msg"

definition success_line :: string where
  "success_line = check_mark @ '' Avatar pack generated successfully!''"

text \<open>The \<open>except\<close> clause of \<open>process_capture_job\<close>.\<close>

definition capture_failed :: "string \<Rightarrow> string \<Rightarrow> valkey \<Rightarrow> capture_result \<times> valkey" where
  "capture_failed job_id error_msg s =
     (CaptureFailed error_msg, update_job_status job_id ''failed'' 0 (failure_line error_msg) s)"

definition process_capture_job :: "capture_env \<Rightarrow> capture_job \<Rightarrow> valkey \<Rightarrow> capture_result \<times> valkey" where
  "process_capture_job env job_data s =
     (let job_id = cj_job_id job_data; avatar_id = cj_avatar_id job_data
      in case run_stages job_id (capture_stages env) s of
           (Some e, s1) \<Rightarrow> capture_failed job_id e s1
         | (None, s1) \<Rightarrow>
             (let s2 = update_job_status job_id ''completed'' 100 success_line s1
              in case cleanup_exn env of
                   Some e \<Rightarrow> capture_failed job_id e s2
                 | None \<Rightarrow>
                     (CaptureCompleted avatar_id
                        (''/avatars/'' @ avatar_id @ ''/manifest.json'')
                        (''/avatars/'' @ avatar_id @ ''.zip''), s2)))"

text \<open>
  The worker's final update: \<open>status_data.update(capture_result)\<close> on the stored
  object, or on \<open>{}\<close> when there is none.
\<close>

definition apply_capture_result :: "capture_result \<Rightarrow> capture_status option \<Rightarrow> capture_status" where
  "apply_capture_result r cur =
     (let d = (case cur of
                 Some d \<Rightarrow> d
               | None \<Rightarrow> \<lparr>cs_job_id = None, cs_status = '''', cs_progress = None, cs_avatar_id = None,
                          cs_manifest_url = None, cs_zip_url = None, cs_error = None, cs_logs = None\<rparr>)
      in case r of
           CaptureCompleted avatar_id manifest_url zip_url \<Rightarrow>
             d\<lparr>cs_status := ''completed'', cs_avatar_id := Some avatar_id,
               cs_manifest_url := Some manifest_url, cs_zip_url := Some zip_url\<rparr>
         | CaptureFailed error_msg \<Rightarrow> d\<lparr>cs_status := ''failed'', cs_error := Some error_msg\<rparr>)"

definition handle_capture_job :: "capture_env \<Rightarrow> capture_job \<Rightarrow> valkey \<Rightarrow> valkey" where
  "handle_capture_job env job_data s =
     (case process_capture_job env job_data s of
        (capture_result, s1) \<Rightarrow>
          set_json (cj_job_id job_data)
            (apply_capture_result capture_result (get_json (cj_job_id job_data) s1)) s1)"



section \<open>Worker: render pipeline (worker/tts.py, worker/worker.py)\<close>

text \<open>\<open>os.path.dirname\<close> and \<open>os.path.join\<close> of two components, on POSIX paths.\<close>

definition dirname :: "string \<Rightarrow> string" where
  "dirname p =
     (let head = rev (dropWhile (\<lambda>c. c \<noteq> CHR ''/'') (rev p))
      in if head \<noteq> [] \<and> (\<exists>c \<in> set head. c \<noteq> CHR ''/'')
         then rev (dropWhile (\<lambda>c. c = CHR ''/'') (rev head)) else head)"

definition path_join :: "string \<Rightarrow> string \<Rightarrow> string" where
  "path_join a b =
     (if b \<noteq> [] \<and> hd b = CHR ''/'' then b
      else if a = [] \<or> last a = CHR ''/'' then a @ b
      else a @ ''/'' @ b)"

text \<open>What running the Piper binary gave: a timeout, or an exit.\<close>

datatype piper_outcome =
    PiperTimeout
  | PiperExit (returncode: int) (stderr: string) (wav_created: bool)

record tts_result =
  output_path :: string
  output_filename :: string
  tts_duration_ms :: int

text \<open>
  The worker's surroundings: configuration, the file system and the external tools.
  \<open>run_piper model_path text\<close> runs the synthesizer with a voice model on a text;
  \<open>run_rhubarb audio_path text\<close> is the whole of \<open>extract_mouth_cues\<close> up to the parsing
  of the tool's JSON output (the conversion of an OGG file back to WAV included), giving
  the raw cues or the message of the error raised; \<open>gen_eye_events\<close> is
  \<open>generate_eye_events\<close>, which draws random numbers; \<open>fp_round\<close> is the rounding of
  float arithmetic; \<open>elapsed_ms\<close> is the clock difference of \<open>process_job\<close>.
\<close>

record worker_env =
  PIPER_MODEL :: string
  AUDIO_DIR :: string
  path_exists :: "string \<Rightarrow> bool"
  run_piper :: "string \<Rightarrow> string \<Rightarrow> piper_outcome"
  wav_duration_ms :: "string \<Rightarrow> int"
  ogg_converted :: "string \<Rightarrow> bool"
  run_rhubarb :: "string \<Rightarrow> string \<Rightarrow> string + rhubarb_cue list"
  gen_eye_events :: "int \<Rightarrow> string \<Rightarrow> eye_event list"
  fp_round :: "rat \<Rightarrow> rat"
  elapsed_ms :: int

definition get_voice_model_path :: "worker_env \<Rightarrow> string \<Rightarrow> string" where
  "get_voice_model_path env voice_id =
     (let voices_dir = dirname (PIPER_MODEL env);
          model_path = path_join voices_dir (voice_id @ ''.onnx'')
      in if path_exists env model_path then model_path else PIPER_MODEL env)"

text \<open>
  \<open>synthesize_speech\<close>. Its \<open>except\<close> clauses remove partial files and raise again, so
  an error is the message of the exception: \<open>Inl\<close>.
\<close>

definition synthesize_speech :: "worker_env \<Rightarrow> string \<Rightarrow> string \<Rightarrow> string \<Rightarrow> rat \<Rightarrow> string + tts_result" where
  "synthesize_speech env text out_name voice_model speed =
     (let model_path = (if voice_model \<noteq> [] then voice_model else PIPER_MODEL env);
          wav_path = path_join (AUDIO_DIR env) (out_name @ ''.wav'');
          ogg_path = path_join (AUDIO_DIR env) (out_name @ ''.ogg'')
      in if speed = 0 then Inl ''float division by zero''
         else
           (case run_piper env model_path text of
              PiperTimeout \<Rightarrow> Inl ''Piper TTS timed out''
            | PiperExit rc err wav \<Rightarrow>
                if rc \<noteq> 0 then Inl (''Piper TTS failed: '' @ err)
                else if \<not> wav then Inl ''Piper did not create output file''
                else
                  (let dur = wav_duration_ms env wav_path
                   in if ogg_converted env wav_path
                      then Inr \<lparr>output_path = ogg_path, output_filename = out_name @ ''.ogg'',
                                tts_duration_ms = dur\<rparr>
                      else Inr \<lparr>output_path = wav_path, output_filename = out_name @ ''.wav'',
                                tts_duration_ms = dur\<rparr>)))"

definition extract_mouth_cues :: "worker_env \<Rightarrow> string \<Rightarrow> string \<Rightarrow> string + mouth_cue list" where
  "extract_mouth_cues env audio_path text =
     (case run_rhubarb env audio_path text of
        Inl e \<Rightarrow> Inl e
      | Inr raw_cues \<Rightarrow> Inr (parse_rhubarb_output (fp_round env) raw_cues))"

text \<open>
  The body of the \<open>try\<close> block of \<open>process_job\<close>: the tools called, in order, and
  either the message of the first exception or the completed result.
\<close>

definition run_pipeline :: "worker_env \<Rightarrow> render_job \<Rightarrow> effect list \<times> (string + render_result)" where
  "run_pipeline env job_data =
     (let rid = j_render_id job_data;
          voice_model = get_voice_model_path env (j_voice_id job_data)
      in case synthesize_speech env (j_text job_data) rid voice_model (j_speed job_data) of
           Inl e \<Rightarrow> ([CallPiper rid voice_model], Inl e)
         | Inr tts \<Rightarrow>
             (case extract_mouth_cues env (output_path tts) (j_text job_data) of
                Inl e \<Rightarrow> ([CallPiper rid voice_model, CallRhubarb rid], Inl e)
              | Inr cues \<Rightarrow>
                  ([CallPiper rid voice_model, CallRhubarb rid, CallEyeEvents rid],
                   Inr \<lparr>render_id = rid, status = Completed,
                        audio_url = Some (j_audio_base_url job_data @ ''/'' @ output_filename tts),
                        duration_ms = Some (tts_duration_ms tts),
                        mouth_cues = Some cues,
                        eye_events = Some (gen_eye_events env (tts_duration_ms tts) (j_text job_data)),
                        cached = False, error = None,
                        processing_time_ms = Some (elapsed_ms env)\<rparr>)))"

text \<open>\<open>update_result_status\<close>: nothing is written when no record is stored.\<close>

definition update_result_status :: "string \<Rightarrow> render_status \<Rightarrow> valkey \<Rightarrow> valkey" where
  "update_result_status rid st s =
     (case results s rid of
        None \<Rightarrow> s
      | Some data \<Rightarrow> set_result rid (data\<lparr>status := st\<rparr>) s)"

text \<open>The dictionary that the \<open>except\<close> clause of \<open>process_job\<close> returns.\<close>

definition failed_result :: "worker_env \<Rightarrow> render_job \<Rightarrow> string \<Rightarrow> render_result" where
  "failed_result env job_data e =
     \<lparr>render_id = j_render_id job_data, status = Failed, audio_url = None, duration_ms = None,
      mouth_cues = None, eye_events = None, cached = False, error = Some e,
      processing_time_ms = Some (elapsed_ms env)\<rparr>"

definition process_job :: "worker_env \<Rightarrow> render_job \<Rightarrow> valkey \<Rightarrow> render_result \<times> valkey" where
  "process_job env job_data s =
     (let rid = j_render_id job_data;
          s1 = update_result_status rid Processing s
      in case run_pipeline env job_data of
           (calls, Inr result) \<Rightarrow> (result, s1\<lparr>trace := trace s1 @ calls\<rparr>)
         | (calls, Inl e) \<Rightarrow> (failed_result env job_data e, s1\<lparr>trace := trace s1 @ calls\<rparr>))"

definition store_result :: "render_result \<Rightarrow> string \<Rightarrow> valkey \<Rightarrow> valkey" where
  "store_result result cache_key s =
     (let rid = render_id result;
          s1 = set_result rid result s;
          s2 = (if status result = Completed then set_cached_result cache_key result s1 else s1)
      in push_notify rid s2)"

text \<open>The render branch of the loop body of \<open>run_worker\<close>.\<close>

definition handle_render_job :: "worker_env \<Rightarrow> render_job \<Rightarrow> valkey \<Rightarrow> valkey" where
  "handle_render_job env job_data s =
     (let rid = j_render_id job_data;
          skip = (case results s rid of
                    Some existing_data \<Rightarrow> status existing_data \<in> set [Completed, Failed]
                  | None \<Rightarrow> False)
      in if skip then s
         else (case process_job env job_data s of
                 (result, s1) \<Rightarrow> store_result result (j_cache_key job_data) s1))"

text \<open>
  One pass of the loop body of \<open>run_worker\<close>. A timeout of the blocking pop is an idle
  pass. The store and the JSON decoding do not fail in this model, so the two
  \<open>except\<close> clauses of the loop, which log, sleep and go on, are never entered.
\<close>

definition worker_iteration :: "worker_env \<Rightarrow> capture_env \<Rightarrow> valkey \<Rightarrow> valkey" where
  "worker_iteration env cenv s =
     (case brpop s of
        None \<Rightarrow> s
      | Some ((queue_key, job_data), s1) \<Rightarrow>
          (case job_data of
             CaptureJob cj \<Rightarrow> handle_capture_job cenv cj s1
           | RenderJob rj \<Rightarrow> handle_render_job env rj s1))"

section \<open>Front Door: submission and polling (api/main.py)\<close>

record render_request =
  req_text :: string
  req_voice_id :: string
  req_speed :: rat

record async_render_response =
  a_render_id :: string
  a_status :: render_status
  poll_url :: string

text \<open>
  The Front Door's surroundings: the digest function, the configured audio URL, the base
  URL of the incoming request and the clock read by \<open>generate_render_id\<close>.
\<close>

record api_env =
  sha256_hexdigest :: "string \<Rightarrow> string"
  AUDIO_BASE_URL :: string
  base_url :: string
  time_ns :: nat

definition rstrip_slash :: "string \<Rightarrow> string" where
  "rstrip_slash u = rev (dropWhile (\<lambda>c. c = CHR ''/'') (rev u))"

definition make_job :: "api_env \<Rightarrow> string \<Rightarrow> string \<Rightarrow> render_request \<Rightarrow> render_job" where
  "make_job env rid cache_key request =
     \<lparr>j_render_id = rid, j_cache_key = cache_key, j_text = req_text request,
      j_voice_id = req_voice_id request, j_speed = req_speed request,
      j_audio_base_url = AUDIO_BASE_URL env\<rparr>"

text \<open>The initial record \<open>{"render_id": render_id, "status": "pending"}\<close>.\<close>

definition pending_record :: "string \<Rightarrow> render_result" where
  "pending_record rid =
     \<lparr>render_id = rid, status = Pending, audio_url = None, duration_ms = None,
      mouth_cues = None, eye_events = None, cached = False, error = None,
      processing_time_ms = None\<rparr>"

text \<open>
  \<open>render_async\<close>. On a cache hit the identifier is read from the cached object. (The
  default of that \<open>.get\<close>, the last segment of the cache key, is for an object with no
  \<open>render_id\<close>; the record type has the field, as every object the worker caches does.)
\<close>

definition render_async :: "api_env \<Rightarrow> render_request \<Rightarrow> valkey \<Rightarrow> async_render_response \<times> valkey" where
  "render_async env request s =
     (let cache_key = generate_cache_key (sha256_hexdigest env)
                        (req_voice_id request) (req_speed request) (req_text request)
      in case get_cached_result cache_key s of
           Some cached_result \<Rightarrow>
             (let rid = render_id cached_result;
                  s1 = set_result rid cached_result s
              in (\<lparr>a_render_id = rid, a_status = Completed,
                   poll_url = rstrip_slash (base_url env) @ ''/v1/avatar/render/'' @ rid\<rparr>, s1))
         | None \<Rightarrow>
             (let rid = generate_render_id (sha256_hexdigest env) (time_ns env)
                          (req_voice_id request) (req_speed request) (req_text request);
                  job_data = make_job env rid cache_key request;
                  s1 = set_result rid (pending_record rid) s;
                  s2 = enqueue_job (RenderJob job_data) s1
              in (\<lparr>a_render_id = rid, a_status = Pending,
                   poll_url = rstrip_slash (base_url env) @ ''/v1/avatar/render/'' @ rid\<rparr>, s2)))"

text \<open>
  \<open>RenderResponse(**result)\<close> validates the stored object against the schema. With the
  record types above, the one constraint that a stored object can break is the bound on
  the weight of a mouth cue (\<open>ge=0.0, le=1.0\<close> in \<open>MouthCue\<close>); a violation raises,
  and the request ends with HTTP 500.
\<close>

definition response_valid :: "render_result \<Rightarrow> bool" where
  "response_valid r =
     (case mouth_cues r of
        None \<Rightarrow> True
      | Some cues \<Rightarrow> list_all (\<lambda>c. 0 \<le> weight c \<and> weight c \<le> 1) cues)"

text \<open>\<open>get_render_status\<close>: the poll.\<close>

datatype poll_outcome = NotFound404 | Found render_result | Invalid500

definition get_render_status :: "string \<Rightarrow> valkey \<Rightarrow> poll_outcome" where
  "get_render_status rid s =
     (case get_result rid s of
        None \<Rightarrow> NotFound404
      | Some result \<Rightarrow> if response_valid result then Found result else Invalid500)"

text \<open>
  \<open>render_sync\<close>, from the admission of the request to the call of
  \<open>wait_for_result\<close>: the cached result, marked as cached, or the identifier of the job
  that was enqueued.
\<close>

definition render_sync_submit :: "api_env \<Rightarrow> render_request \<Rightarrow> valkey \<Rightarrow> (render_result + string) \<times> valkey" where
  "render_sync_submit env request s =
     (let cache_key = generate_cache_key (sha256_hexdigest env)
                        (req_voice_id request) (req_speed request) (req_text request)
      in case get_cached_result cache_key s of
           Some cached_result \<Rightarrow> (Inl (cached_result\<lparr>cached := True\<rparr>), s)
         | None \<Rightarrow>
             (let rid = generate_render_id (sha256_hexdigest env) (time_ns env)
                          (req_voice_id request) (req_speed request) (req_text request);
                  job_data = make_job env rid cache_key request
              in (Inr rid, enqueue_job (RenderJob job_data) s)))"

text \<open>
  \<open>wait_for_result\<close>: the stored result if there is one; otherwise a blocking pop on
  the notification list. While the call blocks, the other clients of the store act on it:
  \<open>others\<close> is what they do before the pop returns or times out. The pop takes a marker
  and the result is read again, or it times out with \<open>None\<close>.
\<close>

definition wait_for_result :: "(valkey \<Rightarrow> valkey) \<Rightarrow> string \<Rightarrow> valkey \<Rightarrow> render_result option \<times> valkey" where
  "wait_for_result others rid s =
     (case get_result rid s of
        Some result \<Rightarrow> (Some result, s)
      | None \<Rightarrow>
          (let s1 = others s
           in case notify s1 rid of
                None \<Rightarrow> (None, s1)
              | Some l \<Rightarrow>
                  if l = [] then (None, s1)
                  else (get_result rid s1, s1\<lparr>notify := (notify s1)(rid \<mapsto> butlast l)\<rparr>)))"

text \<open>
  The body of the \<open>try\<close> block of \<open>render_sync\<close>: the way it leaves the block, the
  response if there is one, and the store. \<open>processing_ms\<close> is the clock difference.
\<close>

definition render_sync_body ::
  "api_env \<Rightarrow> int \<Rightarrow> (valkey \<Rightarrow> valkey) \<Rightarrow> render_request \<Rightarrow> valkey \<Rightarrow>
     (sync_exit \<times> render_result option) \<times> valkey" where
  "render_sync_body env processing_ms others request s =
     (case render_sync_submit env request s of
        (Inl cached_result, s1) \<Rightarrow>
          if response_valid cached_result then ((ServedFromCache, Some cached_result), s1)
          else ((UnhandledError, None), s1)
      | (Inr rid, s1) \<Rightarrow>
          (case wait_for_result others rid s1 of
             (None, s2) \<Rightarrow> ((Timeout504, None), s2)
           | (Some result, s2) \<Rightarrow>
               (let response = result\<lparr>processing_time_ms := Some processing_ms, cached := False\<rparr>
                in if response_valid response then ((Rendered, Some response), s2)
                   else ((UnhandledError, None), s2))))"

text \<open>
  \<open>render_sync\<close> as a whole, on the counter and the store: the admission check, the
  body, and the \<open>finally\<close> clause.
\<close>

definition render_sync ::
  "int \<Rightarrow> api_env \<Rightarrow> int \<Rightarrow> (valkey \<Rightarrow> valkey) \<Rightarrow> render_request \<Rightarrow> int \<times> valkey \<Rightarrow>
     (http_outcome \<times> render_result option) \<times> int \<times> valkey" where
  "render_sync MAX_CONCURRENT_REQUESTS env processing_ms others request st =
     (case render_sync_enter MAX_CONCURRENT_REQUESTS (fst st) of
        (Some rejected, c) \<Rightarrow> ((rejected, None), c, snd st)
      | (None, c) \<Rightarrow>
          (case render_sync_body env processing_ms others request (snd st) of
             ((path, response), s1) \<Rightarrow>
               ((fst (render_sync_leave path c), response), snd (render_sync_leave path c), s1)))"

section \<open>Producers and consumers on the two queues\<close>

text \<open>
  The queue traffic of the system, one atomic store operation at a time: the Front Door
  enqueues a render job (\<open>enqueue_job\<close>), Capture Intake pushes a capture job
  (\<open>push_job\<close> on the capture queue), some worker does its blocking pop. \<open>queue_run\<close>
  returns the store and what the pops yielded, oldest first.
\<close>

datatype queue_op = EnqueueRender job | PushCapture job | WorkerPop

fun queue_step :: "queue_op \<Rightarrow> valkey \<times> (string \<times> job) list \<Rightarrow> valkey \<times> (string \<times> job) list" where
  "queue_step (EnqueueRender j) (s, out) = (enqueue_job j s, out)"
| "queue_step (PushCapture j) (s, out) = (push_job CAPTURE_JOB_QUEUE_KEY j s, out)"
| "queue_step WorkerPop (s, out) =
     (case brpop s of None \<Rightarrow> (s, out) | Some (kj, s') \<Rightarrow> (s', out @ [kj]))"

fun queue_run :: "queue_op list \<Rightarrow> valkey \<times> (string \<times> job) list \<Rightarrow> valkey \<times> (string \<times> job) list" where
  "queue_run [] st = st"
| "queue_run (x # xs) st = queue_run xs (queue_step x st)"

fun enqueued_render :: "queue_op list \<Rightarrow> job list" where
  "enqueued_render [] = []"
| "enqueued_render (EnqueueRender j # xs) = j # enqueued_render xs"
| "enqueued_render (_ # xs) = enqueued_render xs"

definition popped_from :: "string \<Rightarrow> (string \<times> job) list \<Rightarrow> job list" where
  "popped_from queue_key out = map snd (filter (\<lambda>kj. fst kj = queue_key) out)"

section \<open>The history of a ResultRecord\<close>







section \<open>The history of a CaptureStatus\<close>










section \<open>Concrete surroundings for the closed examples\<close>

text \<open>
  The closed examples need a digest function, tools and a file system. \<open>example_digest\<close>
  stands in for SHA-256 there (the general theorems hold for every digest function);
  Piper succeeds with the default voice model, the only model file that exists.
\<close>

definition example_digest :: "string \<Rightarrow> string" where
  "example_digest content = rev content"

definition example_api_env :: "nat \<Rightarrow> api_env" where
  "example_api_env now =
     \<lparr>sha256_hexdigest = example_digest, AUDIO_BASE_URL = ''http://localhost:8080/audio'',
      base_url = ''http://localhost:8000/'', time_ns = now\<rparr>"

definition example_request :: render_request where
  "example_request = \<lparr>req_text = ''Hello world'', req_voice_id = ''V1'', req_speed = 1\<rparr>"

definition example_worker_env :: worker_env where
  "example_worker_env =
     \<lparr>PIPER_MODEL = ''/opt/piper/voices/en_US-lessac-medium.onnx'',
      AUDIO_DIR = ''/data/audio'',
      path_exists = (\<lambda>p. p = ''/opt/piper/voices/en_US-lessac-medium.onnx''),
      run_piper = (\<lambda>model_path txt.
         if model_path = ''/opt/piper/voices/en_US-lessac-medium.onnx''
         then PiperExit 0 [] True else PiperExit 1 ''no such model'' False),
      wav_duration_ms = (\<lambda>p. 1200),
      ogg_converted = (\<lambda>p. True),
      run_rhubarb = (\<lambda>p txt. Inr [\<lparr>cue_start = 0, cue_end = 1 / 2, cue_value = ''X''\<rparr>,
                                  \<lparr>cue_start = 1 / 2, cue_end = 4 / 5, cue_value = ''A''\<rparr>]),
      gen_eye_events = (\<lambda>d txt. []),
      fp_round = (\<lambda>x. x),
      elapsed_ms = 350\<rparr>"

definition example_capture_env :: capture_env where
  "example_capture_env =
     \<lparr>normalize_video_ok = True, extract_base_face_ok = True, extract_idle_video_ok = True,
      anchor_timeline_exn = None, viseme_frames_exn = None, eye_frames_exn = None,
      masks_exn = None, spritesheet_exn = None, manifest_exn = None, zip_exn = None,
      cleanup_exn = None\<rparr>"

definition example_render_job :: "string \<Rightarrow> render_job" where
  "example_render_job unknown_voice =
     \<lparr>j_render_id = ''0123456789abcdef01234567'', j_cache_key = ''avatar:cache:0123456789abcdef'',
      j_text = ''Hello world'', j_voice_id = unknown_voice, j_speed = 1,
      j_audio_base_url = ''http://localhost:8080/audio''\<rparr>"

definition example_capture_job :: "string \<Rightarrow> capture_job" where
  "example_capture_job job_id =
     \<lparr>cj_job_id = job_id, cj_capture_id = ''c1'', cj_avatar_id = ''ava'',
      cj_capture_path = ''/data/captures/c1.webm'', cj_avatars_dir = ''/data/avatars''\<rparr>"

text \<open>
  The job that the example request makes when it is submitted at time 1000 with the
  example digest, and the result that the example tools give for it.
\<close>

definition example_job :: render_job where
  "example_job =
     \<lparr>j_render_id = ''0001:dlrow olleH:00.1:1V'', j_cache_key = ''avatar:cache:dlrow olleH:00.1'',
      j_text = ''Hello world'', j_voice_id = ''V1'', j_speed = 1,
      j_audio_base_url = ''http://localhost:8080/audio''\<rparr>"

definition example_result :: render_result where
  "example_result =
     \<lparr>render_id = ''0001:dlrow olleH:00.1:1V'', status = Completed,
      audio_url = Some ''http://localhost:8080/audio/0001:dlrow olleH:00.1:1V.ogg'',
      duration_ms = Some 1200,
      mouth_cues = Some [\<lparr>t_ms = 0, viseme = ''REST'', weight = 1\<rparr>,
                         \<lparr>t_ms = 500, viseme = ''AA'', weight = 1\<rparr>],
      eye_events = Some [], cached = False, error = None, processing_time_ms = Some 350\<rparr>"


section \<open>Fingerprint: proofs\<close>








section \<open>Mouth cues: proofs\<close>

lemma py_int_mono:
  assumes "x \<le> y"
  shows "py_int x \<le> py_int y"
proof (cases "0 \<le> x")
  case True
  with assms have "0 \<le> y" by simp
  with True assms show ?thesis by (simp add: py_int_def floor_mono)
next
  case False
  show ?thesis
  proof (cases "0 \<le> y")
    case True
    from False have "\<lceil>x\<rceil> \<le> 0" by (simp add: ceiling_le_iff)
    moreover from True have "0 \<le> \<lfloor>y\<rfloor>" by simp
    ultimately have "\<lceil>x\<rceil> \<le> \<lfloor>y\<rfloor>" by (rule order_trans)
    then show ?thesis using False True by (simp add: py_int_def)
  next
    case y: False
    with False assms show ?thesis by (simp add: py_int_def ceiling_mono)
  qed
qed

lemma round_half_even_lower: "of_int n \<le> x \<Longrightarrow> n \<le> round_half_even x"
  unfolding round_half_even_def Let_def
  by (auto simp: le_floor_iff intro: order_trans[where y = "\<lfloor>x\<rfloor>"])

lemma round_half_even_upper: "x \<le> of_int n \<Longrightarrow> round_half_even x \<le> n"
proof -
  assume h: "x \<le> of_int n"
  have fl: "\<lfloor>x\<rfloor> \<le> n" using h by (simp add: floor_le_iff)
  show ?thesis
  proof (cases "x = of_int \<lfloor>x\<rfloor>")
    case True
    then show ?thesis using fl by (simp add: round_half_even_def Let_def)
  next
    case False
    then have "of_int \<lfloor>x\<rfloor> < x"
      using of_int_floor_le[of x] by (auto simp: less_le)
    with h have "of_int \<lfloor>x\<rfloor> < (of_int n :: rat)" by linarith
    then have "\<lfloor>x\<rfloor> + 1 \<le> n" by simp
    then show ?thesis by (auto simp: round_half_even_def Let_def)
  qed
qed

lemma cue_weight_le_1: "cue_weight rnd cue \<le> 1"
  by (simp add: cue_weight_def Let_def)

lemma cue_weight_ge_half:
  assumes r: "float_rounding rnd" and o: "cue_start cue \<le> cue_end cue"
  shows "1 / 2 \<le> cue_weight rnd cue"
proof -
  from r have mono: "\<And>x y. x \<le> y \<Longrightarrow> rnd x \<le> rnd y"
    and r0: "rnd 0 = 0" and rh: "rnd (1 / 2) = 1 / 2"
    by (auto simp: float_rounding_def)
  let ?s = "py_int (rnd (cue_start cue * 1000))"
  let ?e = "py_int (rnd (cue_end cue * 1000))"
  from o have "cue_start cue * 1000 \<le> cue_end cue * 1000" by simp
  then have "?s \<le> ?e" by (intro py_int_mono mono)
  then have "(0::rat) \<le> of_int (?e - ?s) / 500" by simp
  from mono[OF this] have q: "0 \<le> rnd (of_int (?e - ?s) / 500)" by (simp add: r0)
  then have "(1 / 2 :: rat) \<le> 1 / 2 + rnd (of_int (?e - ?s) / 500)" by simp
  from mono[OF this] have "1 / 2 \<le> rnd (1 / 2 + rnd (of_int (?e - ?s) / 500))"
    by (simp add: rh)
  then show ?thesis by (simp add: cue_weight_def Let_def)
qed

lemma py_round2_upper:
  assumes r: "float_rounding rnd" and "x \<le> 1"
  shows "py_round2 rnd x \<le> 1"
proof -
  from r have mono: "\<And>x y. x \<le> y \<Longrightarrow> rnd x \<le> rnd y" and r1: "rnd 1 = 1"
    by (auto simp: float_rounding_def)
  from assms(2) have "x * 100 \<le> of_int 100" by simp
  from round_half_even_upper[OF this] have "round_half_even (x * 100) \<le> 100" .
  then have "(of_int (round_half_even (x * 100)) :: rat) \<le> 100"
    by (metis of_int_le_iff of_int_numeral)
  then have "(of_int (round_half_even (x * 100)) :: rat) / 100 \<le> 1" by simp
  from mono[OF this] show ?thesis by (simp add: py_round2_def r1)
qed

lemma py_round2_lower:
  assumes r: "float_rounding rnd" and "1 / 2 \<le> x"
  shows "1 / 2 \<le> py_round2 rnd x"
proof -
  from r have mono: "\<And>x y. x \<le> y \<Longrightarrow> rnd x \<le> rnd y" and rh: "rnd (1 / 2) = 1 / 2"
    by (auto simp: float_rounding_def)
  from assms(2) have "of_int 50 \<le> x * 100" by simp
  from round_half_even_lower[OF this] have "50 \<le> round_half_even (x * 100)" .
  then have "(50 :: rat) \<le> of_int (round_half_even (x * 100))"
    by (metis of_int_le_iff of_int_numeral)
  then have "(1 / 2 :: rat) \<le> of_int (round_half_even (x * 100)) / 100" by simp
  from mono[OF this] show ?thesis by (simp add: py_round2_def rh)
qed

text \<open>
  C10. Under any float rounding that is monotone and exact on 0, 0.5 and 1, every cue
  that \<open>parse_rhubarb_output\<close> produces has a weight of at most 1, and a cue whose
  end time is not before its start time has a weight of at least 0.5; so when no
  Rhubarb cue ends before it starts, every produced weight is within the bounds 0 and 1
  of the \<open>MouthCue\<close> schema.
\<close>

theorem mouth_cue_weight_bounds:
  assumes "float_rounding rnd" and "i < length raw_cues"
  shows "weight (parse_rhubarb_output rnd raw_cues ! i) \<le> 1 \<and>
         (cue_start (raw_cues ! i) \<le> cue_end (raw_cues ! i) \<longrightarrow>
            1 / 2 \<le> weight (parse_rhubarb_output rnd raw_cues ! i)) \<and>
         ((\<forall>c \<in> set raw_cues. cue_start c \<le> cue_end c) \<longrightarrow>
            list_all (\<lambda>c. 0 \<le> weight c \<and> weight c \<le> 1) (parse_rhubarb_output rnd raw_cues))"
proof -
  let ?c = "raw_cues ! i"
  have w: "weight (parse_rhubarb_output rnd raw_cues ! i) = py_round2 rnd (cue_weight rnd ?c)"
    using assms(2) by (simp add: parse_rhubarb_output_def parse_cue_def)
  have up: "py_round2 rnd (cue_weight rnd c) \<le> 1" for c
    by (rule py_round2_upper[OF assms(1) cue_weight_le_1])
  have lo: "1 / 2 \<le> py_round2 rnd (cue_weight rnd c)" if "cue_start c \<le> cue_end c" for c
    by (rule py_round2_lower[OF assms(1) cue_weight_ge_half[OF assms(1) that]])
  have nn: "0 \<le> py_round2 rnd (cue_weight rnd c)" if "cue_start c \<le> cue_end c" for c
    using lo[OF that] by simp
  have all: "list_all (\<lambda>c. 0 \<le> weight c \<and> weight c \<le> 1) (parse_rhubarb_output rnd raw_cues)"
    if "\<forall>c \<in> set raw_cues. cue_start c \<le> cue_end c"
    using that up nn
    by (simp add: parse_rhubarb_output_def parse_cue_def list_all_iff)
  show ?thesis unfolding w using up lo all by blast
qed

lemma float_rounding_exact: "float_rounding (\<lambda>x. x)"
  by (simp add: float_rounding_def)

theorem mouth_cue_weight_bounds_witness:
  "float_rounding (\<lambda>x. x) \<and> (1::nat) < length
      [\<lparr>cue_start = 0, cue_end = 1 / 2, cue_value = ''X''\<rparr>,
       \<lparr>cue_start = 1 / 2, cue_end = 4 / 5, cue_value = ''A''\<rparr>] \<and>
   parse_rhubarb_output (\<lambda>x. x)
      [\<lparr>cue_start = 0, cue_end = 1 / 2, cue_value = ''X''\<rparr>,
       \<lparr>cue_start = 1 / 2, cue_end = 4 / 5, cue_value = ''A''\<rparr>] =
      [\<lparr>t_ms = 0, viseme = ''REST'', weight = 1\<rparr>,
       \<lparr>t_ms = 500, viseme = ''AA'', weight = 1\<rparr>] \<and>
   list_all (\<lambda>c. cue_start c \<le> cue_end c)
      [\<lparr>cue_start = 0, cue_end = 1 / 2, cue_value = ''X''\<rparr>,
       \<lparr>cue_start = 1 / 2, cue_end = 4 / 5, cue_value = ''A''\<rparr>] \<and>
   list_all (\<lambda>c. 0 \<le> weight c \<and> weight c \<le> 1)
     (parse_rhubarb_output (\<lambda>x. x)
        [\<lparr>cue_start = 0, cue_end = 1 / 2, cue_value = ''X''\<rparr>,
         \<lparr>cue_start = 1 / 2, cue_end = 4 / 5, cue_value = ''A''\<rparr>]) \<and>
   weight (parse_rhubarb_output (\<lambda>x. x)
      [\<lparr>cue_start = 0, cue_end = 1 / 2, cue_value = ''X''\<rparr>,
       \<lparr>cue_start = 1 / 2, cue_end = 4 / 5, cue_value = ''A''\<rparr>] ! 1) \<le> 1"
  using mouth_cue_weight_bounds[OF float_rounding_exact, of 1
      "[\<lparr>cue_start = 0, cue_end = 1 / 2, cue_value = ''X''\<rparr>,
        \<lparr>cue_start = 1 / 2, cue_end = 4 / 5, cue_value = ''A''\<rparr>]"]
  by (simp add: float_rounding_exact parse_rhubarb_output_def parse_cue_def cue_weight_def
      py_round2_def round_half_even_def py_int_def VISEME_MAP_def)

section \<open>Admission control: proofs\<close>

lemma slot_step_bounds:
  "0 \<le> c \<Longrightarrow> c \<le> M \<Longrightarrow> 0 \<le> slot_step M x c \<and> slot_step M x c \<le> M"
  by (cases x) (auto simp: check_concurrency_limit_def release_concurrency_slot_def)

lemma slot_run_bounds:
  "0 \<le> c \<Longrightarrow> c \<le> M \<Longrightarrow> 0 \<le> slot_run M xs c \<and> slot_run M xs c \<le> M"
proof (induction xs arbitrary: c)
  case Nil
  then show ?case by simp
next
  case (Cons x xs)
  from slot_step_bounds[OF Cons.prems] show ?case
    by (simp add: Cons.IH)
qed

lemma fd_step_inv:
  assumes "fd_step M e (c, n) = Some (c', n')" and "c = int n" and "c \<le> M"
  shows "c' = int n' \<and> c' \<le> M"
proof (cases e)
  case Arrive
  with assms show ?thesis
    by (auto simp: render_sync_enter_def check_concurrency_limit_def split: if_splits)
next
  case (Leave p)
  with assms show ?thesis
    by (auto simp: render_sync_leave_def release_concurrency_slot_def split: if_splits)
qed

lemma fd_run_inv:
  "fd_run M es (c, n) = Some (c', n') \<Longrightarrow> c = int n \<Longrightarrow> c \<le> M \<Longrightarrow> c' = int n' \<and> c' \<le> M"
proof (induction es arbitrary: c n)
  case Nil
  then show ?case by simp
next
  case (Cons e es)
  from Cons.prems(1) obtain c1 n1 where
    st: "fd_step M e (c, n) = Some (c1, n1)" and rest: "fd_run M es (c1, n1) = Some (c', n')"
    by (auto split: option.splits)
  from fd_step_inv[OF st Cons.prems(2,3)] have "c1 = int n1" "c1 \<le> M" by simp_all
  with Cons.IH[OF rest] show ?case by simp
qed

lemma render_sync_counter:
  assumes "0 \<le> c"
  shows "fst (snd (render_sync M env t others request (c, s))) = c \<and>
         (fst (fst (render_sync M env t others request (c, s))) = Http429 \<longleftrightarrow> M \<le> c)"
proof (cases "M \<le> c")
  case True
  then show ?thesis
    by (simp add: render_sync_def render_sync_enter_def check_concurrency_limit_def)
next
  case False
  obtain path response s1 where
    b: "render_sync_body env t others request s = ((path, response), s1)"
    by (metis surj_pair)
  have "exit_outcome path \<noteq> Http429" by (cases path) simp_all
  with False assms show ?thesis
    by (simp add: render_sync_def render_sync_enter_def check_concurrency_limit_def b
        render_sync_leave_def release_concurrency_slot_def)
qed

text \<open>
  C2. With a non-negative ceiling, every sequence of acquire and release calls keeps the
  counter between 0 and the ceiling; and along every schedule of arriving and leaving
  synchronous requests the counter equals the number of admitted requests still in
  flight (so each admitted request has released its slot on whichever path it left),
  an arriving request is rejected with 429 exactly when the ceiling is reached, and a
  request admitted below the ceiling gives its slot back on each of the four exit paths;
  a call of \<open>render_sync\<close> run from such a state to its end, whatever the store, the
  other clients and its outcome are, leaves the counter as it found it.
\<close>

theorem admission_counter_invariant:
  assumes "0 \<le> M"
  shows "(0 \<le> slot_run M xs 0 \<and> slot_run M xs 0 \<le> M) \<and>
         (fd_run M es (0, 0) = Some (c, n) \<longrightarrow>
            0 \<le> c \<and> c \<le> M \<and> c = int n \<and>
            (fst (render_sync_enter M c) = Some Http429 \<longleftrightarrow> c = M) \<and>
            (c < M \<longrightarrow>
               (\<forall>p. snd (render_sync_leave p (snd (render_sync_enter M c))) = c)) \<and>
            fst (snd (render_sync M env t others request (c, s))) = c \<and>
            (fst (fst (render_sync M env t others request (c, s))) = Http429 \<longleftrightarrow> c = M))"
proof -
  have a: "0 \<le> slot_run M xs 0 \<and> slot_run M xs 0 \<le> M"
    using slot_run_bounds[of 0 M xs] assms by simp
  have b: "0 \<le> c \<and> c \<le> M \<and> c = int n" if "fd_run M es (0, 0) = Some (c, n)"
    using fd_run_inv[OF that] assms by simp
  have c: "(fst (render_sync_enter M c) = Some Http429 \<longleftrightarrow> c = M)" if "c \<le> M"
    using that by (auto simp: render_sync_enter_def check_concurrency_limit_def)
  have d: "fst (snd (render_sync M env t others request (c, s))) = c \<and>
      (fst (fst (render_sync M env t others request (c, s))) = Http429 \<longleftrightarrow> c = M)"
    if "fd_run M es (0, 0) = Some (c, n)"
    using render_sync_counter[of c M env t others request s] b[OF that] by auto
  have e: "\<forall>p. snd (render_sync_leave p (snd (render_sync_enter M c))) = c"
    if "0 \<le> c" "c < M"
    using that
    by (simp add: render_sync_enter_def render_sync_leave_def check_concurrency_limit_def
        release_concurrency_slot_def)
  show ?thesis using a b c d e by blast
qed

theorem admission_counter_invariant_witness:
  "(0::int) \<le> 2 \<and>
   slot_run 2 [Acquire, Acquire, Acquire, Release, Release, Release, Release] 0 = 0 \<and>
   fd_run 2 [Arrive, Arrive, Arrive, Leave Timeout504] (0, 0) = Some (1, 1) \<and>
   fst (render_sync_enter 2 2) = Some Http429"
  using admission_counter_invariant[of 2 "[Acquire, Acquire, Acquire, Release, Release, Release, Release]"
      "[Arrive, Arrive, Arrive, Leave Timeout504]" 1 1]
  by (simp add: render_sync_enter_def render_sync_leave_def check_concurrency_limit_def
      release_concurrency_slot_def)

section \<open>The key space: proofs\<close>

text \<open>
  Keys built from different prefixes differ, whatever the identifiers are, and none of
  them is one of the two queue keys; a cache key made by \<open>generate_cache_key\<close> starts
  with the cache prefix.
\<close>

lemma key_spaces_disjoint:
  "RESULT_KEY_PREFIX @ a \<noteq> CACHE_KEY_PREFIX @ b"
  "RESULT_KEY_PREFIX @ a \<noteq> NOTIFY_KEY_PREFIX @ b"
  "RESULT_KEY_PREFIX @ a \<noteq> CAPTURE_JOB_STATUS_PREFIX @ b"
  "CACHE_KEY_PREFIX @ a \<noteq> NOTIFY_KEY_PREFIX @ b"
  "CACHE_KEY_PREFIX @ a \<noteq> CAPTURE_JOB_STATUS_PREFIX @ b"
  "NOTIFY_KEY_PREFIX @ a \<noteq> CAPTURE_JOB_STATUS_PREFIX @ b"
  by (simp_all add: RESULT_KEY_PREFIX_def CACHE_KEY_PREFIX_def NOTIFY_KEY_PREFIX_def
      CAPTURE_JOB_STATUS_PREFIX_def)

lemma queue_keys_apart:
  "RESULT_KEY_PREFIX @ a \<noteq> JOB_QUEUE_KEY" "RESULT_KEY_PREFIX @ a \<noteq> CAPTURE_JOB_QUEUE_KEY"
  "CACHE_KEY_PREFIX @ a \<noteq> JOB_QUEUE_KEY" "CACHE_KEY_PREFIX @ a \<noteq> CAPTURE_JOB_QUEUE_KEY"
  "NOTIFY_KEY_PREFIX @ a \<noteq> JOB_QUEUE_KEY" "NOTIFY_KEY_PREFIX @ a \<noteq> CAPTURE_JOB_QUEUE_KEY"
  "CAPTURE_JOB_STATUS_PREFIX @ a \<noteq> JOB_QUEUE_KEY"
  "CAPTURE_JOB_STATUS_PREFIX @ a \<noteq> CAPTURE_JOB_QUEUE_KEY"
  by (simp_all add: RESULT_KEY_PREFIX_def CACHE_KEY_PREFIX_def NOTIFY_KEY_PREFIX_def
      CAPTURE_JOB_STATUS_PREFIX_def JOB_QUEUE_KEY_def CAPTURE_JOB_QUEUE_KEY_def)

lemma generate_cache_key_prefix:
  "take (length CACHE_KEY_PREFIX) (generate_cache_key digest v sp txt) = CACHE_KEY_PREFIX"
  by (simp add: generate_cache_key_def Let_def)

section \<open>Render jobs in the worker: proofs\<close>


lemma trace_update_result_status:
  "trace (update_result_status rid st s) =
   trace s @ (case results s rid of None \<Rightarrow> [] | Some d \<Rightarrow> [SetResult rid (d\<lparr>status := st\<rparr>)])"
  by (simp add: update_result_status_def set_result_def split: option.splits)

lemma update_result_status_other:
  "cache (update_result_status rid st s) = cache s"
  "notify (update_result_status rid st s) = notify s"
  "render_queue (update_result_status rid st s) = render_queue s"
  "capture_queue (update_result_status rid st s) = capture_queue s"
  "capture_statuses (update_result_status rid st s) = capture_statuses s"
  by (simp_all add: update_result_status_def set_result_def split: option.splits)

text \<open>What \<open>store_result\<close> leaves behind, for a result of either status.\<close>

lemma store_result_effect:
  "results (store_result res key s) = (results s)(render_id res \<mapsto> res)"
  "cache (store_result res key s) =
     (if status res = Completed then (cache s)(key \<mapsto> res) else cache s)"
  "notify (store_result res key s) =
     (notify s)(render_id res \<mapsto> ''ready'' # (case notify s (render_id res) of None \<Rightarrow> [] | Some l \<Rightarrow> l))"
  "trace (store_result res key s) =
     trace s @ [SetResult (render_id res) res] @
       (if status res = Completed then [SetCache key res] else []) @ [PushNotify (render_id res)]"
  by (simp_all add: store_result_def set_result_def set_cached_result_def push_notify_def Let_def)

lemma process_job_result:
  "fst (process_job env job s) =
     (case snd (run_pipeline env job) of Inr res \<Rightarrow> res | Inl e \<Rightarrow> failed_result env job e)"
  by (simp add: process_job_def Let_def split: prod.splits sum.splits)

lemma process_job_state:
  "results (snd (process_job env job s)) = results (update_result_status (j_render_id job) Processing s)"
  "cache (snd (process_job env job s)) = cache s"
  "notify (snd (process_job env job s)) = notify s"
  "trace (snd (process_job env job s)) =
     trace (update_result_status (j_render_id job) Processing s) @ fst (run_pipeline env job)"
  by (simp_all add: process_job_def Let_def update_result_status_other split: prod.splits sum.splits)


text \<open>
  C3. A render job whose stored ResultRecord is already completed or failed is skipped:
  handling it changes nothing, so a loop pass that dequeues it only removes it from the
  queue. No tool is called and no result, cache entry or notification is written (the
  trace of effects is the one before).
\<close>

theorem no_duplicate_processing:
  assumes "results s (j_render_id job) = Some existing"
      and "status existing = Completed \<or> status existing = Failed"
  shows "handle_render_job env job s = s \<and>
         (brpop s0 = Some ((queue_key, RenderJob job), s) \<longrightarrow>
            worker_iteration env cenv s0 = s \<and> trace s = trace s0 \<and> results s = results s0 \<and>
            cache s = cache s0 \<and> notify s = notify s0)"
proof -
  have h: "handle_render_job env job s = s"
    using assms by (auto simp: handle_render_job_def Let_def)
  have "worker_iteration env cenv s0 = s" if "brpop s0 = Some ((queue_key, RenderJob job), s)"
    using that h by (simp add: worker_iteration_def)
  moreover have "trace s = trace s0 \<and> results s = results s0 \<and> cache s = cache s0 \<and> notify s = notify s0"
    if "brpop s0 = Some ((queue_key, RenderJob job), s)"
    using that by (auto simp: brpop_def split: if_splits)
  ultimately show ?thesis using h by blast
qed

theorem no_duplicate_processing_witness:
  "results (empty_valkey\<lparr>results := [''0123456789abcdef01234567'' \<mapsto>
        failed_result example_worker_env (example_render_job ''V1'') ''boom'']\<rparr>)
     (j_render_id (example_render_job ''V1'')) =
     Some (failed_result example_worker_env (example_render_job ''V1'') ''boom'') \<and>
   status (failed_result example_worker_env (example_render_job ''V1'') ''boom'') = Failed \<and>
   brpop (empty_valkey\<lparr>results := [''0123456789abcdef01234567'' \<mapsto>
        failed_result example_worker_env (example_render_job ''V1'') ''boom''],
        render_queue := [RenderJob (example_render_job ''V1'')]\<rparr>) =
     Some ((JOB_QUEUE_KEY, RenderJob (example_render_job ''V1'')),
       empty_valkey\<lparr>results := [''0123456789abcdef01234567'' \<mapsto>
        failed_result example_worker_env (example_render_job ''V1'') ''boom'']\<rparr>) \<and>
   worker_iteration example_worker_env example_capture_env
     (empty_valkey\<lparr>results := [''0123456789abcdef01234567'' \<mapsto>
        failed_result example_worker_env (example_render_job ''V1'') ''boom''],
        render_queue := [RenderJob (example_render_job ''V1'')]\<rparr>) =
     empty_valkey\<lparr>results := [''0123456789abcdef01234567'' \<mapsto>
        failed_result example_worker_env (example_render_job ''V1'') ''boom'']\<rparr>"
proof -
  let ?r = "failed_result example_worker_env (example_render_job ''V1'') ''boom''"
  let ?popped = "empty_valkey\<lparr>results := [''0123456789abcdef01234567'' \<mapsto> ?r]\<rparr>"
  let ?queued = "empty_valkey\<lparr>results := [''0123456789abcdef01234567'' \<mapsto> ?r],
        render_queue := [RenderJob (example_render_job ''V1'')]\<rparr>"
  have a: "results ?popped (j_render_id (example_render_job ''V1'')) = Some ?r"
    by (simp add: example_render_job_def)
  have b: "status ?r = Failed" by (simp add: failed_result_def)
  have c: "brpop ?queued = Some ((JOB_QUEUE_KEY, RenderJob (example_render_job ''V1'')), ?popped)"
    by (simp add: brpop_def empty_valkey_def)
  from no_duplicate_processing[OF a disjI2[OF b], of example_worker_env ?queued JOB_QUEUE_KEY
      example_capture_env] a b c
  show ?thesis by simp
qed

lemma handle_render_job_process:
  assumes "\<not> (\<exists>r. results s (j_render_id job) = Some r \<and> (status r = Completed \<or> status r = Failed))"
  shows "handle_render_job env job s =
         store_result (fst (process_job env job s)) (j_cache_key job) (snd (process_job env job s))"
  using assms
  by (auto simp: handle_render_job_def Let_def split: option.splits prod.splits)


lemma example_dirname:
  "dirname ''/opt/piper/voices/en_US-lessac-medium.onnx'' = ''/opt/piper/voices''"
  by (simp add: dirname_def)



section \<open>Unsupported voices: proofs\<close>

lemma synthesize_speech_fails_iff:
  "isl (synthesize_speech env txt out_name voice_model speed) \<longleftrightarrow>
     speed = 0 \<or>
     (case run_piper env (if voice_model \<noteq> [] then voice_model else PIPER_MODEL env) txt of
        PiperTimeout \<Rightarrow> True
      | PiperExit rc err wav \<Rightarrow> rc \<noteq> 0 \<or> \<not> wav)"
  by (simp add: synthesize_speech_def Let_def split: piper_outcome.splits)

lemma run_pipeline_first_call:
  "take 1 (fst (run_pipeline env job)) =
     [CallPiper (j_render_id job) (get_voice_model_path env (j_voice_id job))]"
  by (simp add: run_pipeline_def Let_def split: sum.splits)

text \<open>
  C8, as the code has it. A voice identifier with no model file is not rejected:
  \<open>get_voice_model_path\<close> answers with the default model, the synthesizer is run with
  the default model, and synthesis fails exactly when that run fails (zero speed, a
  timeout, a non-zero exit or no output file).
\<close>

theorem unsupported_voice_uses_default_model:
  assumes "\<not> path_exists env (path_join (dirname (PIPER_MODEL env)) (j_voice_id job @ ''.onnx''))"
  shows "get_voice_model_path env (j_voice_id job) = PIPER_MODEL env \<and>
         take 1 (fst (run_pipeline env job)) = [CallPiper (j_render_id job) (PIPER_MODEL env)] \<and>
         (isl (synthesize_speech env (j_text job) (j_render_id job)
                 (get_voice_model_path env (j_voice_id job)) (j_speed job)) \<longleftrightarrow>
            j_speed job = 0 \<or>
            (case run_piper env (PIPER_MODEL env) (j_text job) of
               PiperTimeout \<Rightarrow> True
             | PiperExit rc err wav \<Rightarrow> rc \<noteq> 0 \<or> \<not> wav))"
proof -
  have g: "get_voice_model_path env (j_voice_id job) = PIPER_MODEL env"
    using assms by (simp add: get_voice_model_path_def Let_def)
  show ?thesis
    unfolding run_pipeline_first_call synthesize_speech_fails_iff g by simp
qed

lemma example_klingon_path:
  "path_join (dirname (PIPER_MODEL example_worker_env)) (''klingon'' @ ''.onnx'') =
   ''/opt/piper/voices/klingon.onnx''"
  by (simp add: example_worker_env_def example_dirname path_join_def)

theorem unsupported_voice_uses_default_model_witness:
  "\<not> path_exists example_worker_env
       (path_join (dirname (PIPER_MODEL example_worker_env))
          (j_voice_id (example_render_job ''klingon'') @ ''.onnx'')) \<and>
   get_voice_model_path example_worker_env ''klingon'' =
     ''/opt/piper/voices/en_US-lessac-medium.onnx'' \<and>
   \<not> isl (synthesize_speech example_worker_env ''Hello world'' ''0123456789abcdef01234567''
            (get_voice_model_path example_worker_env ''klingon'') 1)"
proof -
  have j: "j_voice_id (example_render_job ''klingon'') = ''klingon''"
    "j_text (example_render_job ''klingon'') = ''Hello world''"
    "j_render_id (example_render_job ''klingon'') = ''0123456789abcdef01234567''"
    "j_speed (example_render_job ''klingon'') = 1"
    by (simp_all add: example_render_job_def)
  have a: "\<not> path_exists example_worker_env
       (path_join (dirname (PIPER_MODEL example_worker_env))
          (j_voice_id (example_render_job ''klingon'') @ ''.onnx''))"
    unfolding j example_klingon_path by (simp add: example_worker_env_def)
  have p: "PIPER_MODEL example_worker_env = ''/opt/piper/voices/en_US-lessac-medium.onnx''"
    "run_piper example_worker_env ''/opt/piper/voices/en_US-lessac-medium.onnx'' ''Hello world'' =
       PiperExit 0 [] True"
    by (simp_all add: example_worker_env_def)
  from unsupported_voice_uses_default_model[OF a] a show ?thesis
    by (auto simp: j p)
qed

text \<open>
  C8 as stated fails: a job asking for a voice that has no model file is not turned into
  an error. Handling it on an empty store calls Piper with the default model and stores a
  completed result without an error message.
\<close>

theorem unsupported_voice_not_rejected:
  "\<not> path_exists example_worker_env ''/opt/piper/voices/klingon.onnx'' \<and>
   get_voice_model_path example_worker_env ''klingon'' =
     ''/opt/piper/voices/en_US-lessac-medium.onnx'' \<and>
   map_option status
     (results (handle_render_job example_worker_env (example_render_job ''klingon'') empty_valkey)
        ''0123456789abcdef01234567'') = Some Completed \<and>
   map_option error
     (results (handle_render_job example_worker_env (example_render_job ''klingon'') empty_valkey)
        ''0123456789abcdef01234567'') = Some None \<and>
   take 1 (trace (handle_render_job example_worker_env (example_render_job ''klingon'') empty_valkey)) =
     [CallPiper ''0123456789abcdef01234567'' ''/opt/piper/voices/en_US-lessac-medium.onnx'']"
proof -
  let ?job = "example_render_job ''klingon''"
  have g: "get_voice_model_path example_worker_env ''klingon'' =
     ''/opt/piper/voices/en_US-lessac-medium.onnx''"
    by (simp add: get_voice_model_path_def Let_def example_worker_env_def example_dirname
        path_join_def)
  have ne: "\<not> path_exists example_worker_env ''/opt/piper/voices/klingon.onnx''"
    by (simp add: example_worker_env_def)
  have rp: "run_pipeline example_worker_env ?job =
     ([CallPiper ''0123456789abcdef01234567'' ''/opt/piper/voices/en_US-lessac-medium.onnx'',
       CallRhubarb ''0123456789abcdef01234567'', CallEyeEvents ''0123456789abcdef01234567''],
      Inr \<lparr>render_id = ''0123456789abcdef01234567'', status = Completed,
        audio_url = Some ''http://localhost:8080/audio/0123456789abcdef01234567.ogg'',
        duration_ms = Some 1200,
        mouth_cues = Some [\<lparr>t_ms = 0, viseme = ''REST'', weight = 1\<rparr>,
                           \<lparr>t_ms = 500, viseme = ''AA'', weight = 1\<rparr>],
        eye_events = Some [], cached = False, error = None, processing_time_ms = Some 350\<rparr>)"
    by (simp add: run_pipeline_def get_voice_model_path_def example_worker_env_def
      example_render_job_def example_dirname path_join_def synthesize_speech_def
      extract_mouth_cues_def parse_rhubarb_output_def parse_cue_def cue_weight_def
      py_round2_def round_half_even_def py_int_def VISEME_MAP_def Let_def)
  have j: "j_render_id ?job = ''0123456789abcdef01234567''"
    by (simp add: example_render_job_def)
  have h: "handle_render_job example_worker_env ?job empty_valkey =
     store_result (fst (process_job example_worker_env ?job empty_valkey)) (j_cache_key ?job)
       (snd (process_job example_worker_env ?job empty_valkey))"
    by (rule handle_render_job_process) (simp add: empty_valkey_def)
  have t0: "trace (update_result_status ''0123456789abcdef01234567'' Processing empty_valkey) = []"
    by (simp add: trace_update_result_status empty_valkey_def)
  show ?thesis
    by (simp add: g ne h store_result_effect process_job_result process_job_state rp j t0)
qed

section \<open>Asynchronous submission: proofs\<close>

lemma render_async_hit:
  assumes "get_cached_result (generate_cache_key (sha256_hexdigest env) (req_voice_id request)
             (req_speed request) (req_text request)) s = Some cached_result"
  shows "render_async env request s =
     (\<lparr>a_render_id = render_id cached_result, a_status = Completed,
       poll_url = rstrip_slash (base_url env) @ ''/v1/avatar/render/'' @ render_id cached_result\<rparr>,
      set_result (render_id cached_result) cached_result s)"
  using assms by (simp add: render_async_def Let_def)


text \<open>
  C9, as the code has it. On a cache hit \<open>render_async\<close> stores the cached result under
  the identifier found in the cached result, the one of the submission that computed it,
  and answers at once with that identifier and status completed; polling the identifier
  gives the cached result (provided it passes the validation of the response schema, as
  any response must). Nothing is enqueued and the cache is not touched.
\<close>

theorem async_cache_hit_reuses_cached_id:
  assumes "get_cached_result (generate_cache_key (sha256_hexdigest env) (req_voice_id request)
             (req_speed request) (req_text request)) s = Some cached_result"
  shows "a_render_id (fst (render_async env request s)) = render_id cached_result \<and>
         a_status (fst (render_async env request s)) = Completed \<and>
         poll_url (fst (render_async env request s)) =
           rstrip_slash (base_url env) @ ''/v1/avatar/render/'' @ render_id cached_result \<and>
         get_result (a_render_id (fst (render_async env request s)))
           (snd (render_async env request s)) = Some cached_result \<and>
         (response_valid cached_result \<longrightarrow>
            get_render_status (a_render_id (fst (render_async env request s)))
              (snd (render_async env request s)) = Found cached_result) \<and>
         results (snd (render_async env request s)) =
           (results s)(render_id cached_result \<mapsto> cached_result) \<and>
         render_queue (snd (render_async env request s)) = render_queue s \<and>
         cache (snd (render_async env request s)) = cache s"
  unfolding render_async_hit[OF assms]
  by (simp add: get_render_status_def get_result_def set_result_def)

lemma example_format: "format_2f 1 = ''1.00''"
  by code_simp

lemma example_key:
  "generate_cache_key example_digest ''V1'' 1 ''Hello world'' = ''avatar:cache:dlrow olleH:00.1''"
  by (simp add: generate_cache_key_def example_format example_digest_def CACHE_KEY_PREFIX_def)

lemma example_rid:
  "generate_render_id example_digest 1000 ''V1'' 1 ''Hello world'' = ''0001:dlrow olleH:00.1:1V''"
  "generate_render_id example_digest 2000 ''V1'' 1 ''Hello world'' = ''0002:dlrow olleH:00.1:1V''"
  by (simp_all add: generate_render_id_def example_format digit_char_def example_digest_def)

lemma example_async_first:
  "render_async (example_api_env 1000) example_request empty_valkey =
     (\<lparr>a_render_id = ''0001:dlrow olleH:00.1:1V'', a_status = Pending,
       poll_url = ''http://localhost:8000/v1/avatar/render/0001:dlrow olleH:00.1:1V''\<rparr>,
      empty_valkey\<lparr>results := [''0001:dlrow olleH:00.1:1V'' \<mapsto> pending_record ''0001:dlrow olleH:00.1:1V''],
                   render_queue := [RenderJob example_job],
                   trace := [SetResult ''0001:dlrow olleH:00.1:1V''
                               (pending_record ''0001:dlrow olleH:00.1:1V'')]\<rparr>)"
  by (simp add: render_async_def Let_def example_api_env_def example_request_def example_key
      example_rid get_cached_result_def empty_valkey_def set_result_def enqueue_job_def
      make_job_def example_job_def rstrip_slash_def)

lemma example_pipeline:
  "run_pipeline example_worker_env example_job =
     ([CallPiper ''0001:dlrow olleH:00.1:1V'' ''/opt/piper/voices/en_US-lessac-medium.onnx'',
       CallRhubarb ''0001:dlrow olleH:00.1:1V'', CallEyeEvents ''0001:dlrow olleH:00.1:1V''],
      Inr example_result)"
  by (simp add: run_pipeline_def get_voice_model_path_def example_worker_env_def
      example_job_def example_result_def example_dirname path_join_def synthesize_speech_def
      extract_mouth_cues_def parse_rhubarb_output_def parse_cue_def cue_weight_def
      py_round2_def round_half_even_def py_int_def VISEME_MAP_def Let_def)

lemma example_worker_pass:
  "worker_iteration example_worker_env example_capture_env
     (snd (render_async (example_api_env 1000) example_request empty_valkey)) =
   empty_valkey\<lparr>
     results := [''0001:dlrow olleH:00.1:1V'' \<mapsto> example_result],
     cache := [''avatar:cache:dlrow olleH:00.1'' \<mapsto> example_result],
     notify := [''0001:dlrow olleH:00.1:1V'' \<mapsto> [''ready'']],
     trace := [SetResult ''0001:dlrow olleH:00.1:1V'' (pending_record ''0001:dlrow olleH:00.1:1V''),
               SetResult ''0001:dlrow olleH:00.1:1V''
                 ((pending_record ''0001:dlrow olleH:00.1:1V'')\<lparr>status := Processing\<rparr>),
               CallPiper ''0001:dlrow olleH:00.1:1V'' ''/opt/piper/voices/en_US-lessac-medium.onnx'',
               CallRhubarb ''0001:dlrow olleH:00.1:1V'', CallEyeEvents ''0001:dlrow olleH:00.1:1V'',
               SetResult ''0001:dlrow olleH:00.1:1V'' example_result,
               SetCache ''avatar:cache:dlrow olleH:00.1'' example_result,
               PushNotify ''0001:dlrow olleH:00.1:1V'']\<rparr>"
proof -
  have j: "j_render_id example_job = ''0001:dlrow olleH:00.1:1V''"
    "j_cache_key example_job = ''avatar:cache:dlrow olleH:00.1''"
    by (simp_all add: example_job_def)
  have r: "render_id example_result = ''0001:dlrow olleH:00.1:1V''" "status example_result = Completed"
    by (simp_all add: example_result_def)
  have p: "status (pending_record ''0001:dlrow olleH:00.1:1V'') = Pending"
    by (simp add: pending_record_def)
  show ?thesis
    unfolding example_async_first snd_conv
    by (simp add: worker_iteration_def brpop_def empty_valkey_def
        handle_render_job_def Let_def j p process_job_def update_result_status_def
        set_result_def example_pipeline store_result_def r set_cached_result_def push_notify_def)
qed

text \<open>
  C9 as stated fails: the identifier returned on a cache hit is not a fresh one. A first
  asynchronous submission misses the cache, a worker renders it, and a second submission
  of the same request at a later time hits the cache: it is answered, as completed, with
  the identifier of the first submission, not with the identifier that
  \<open>generate_render_id\<close> gives for the second.
\<close>

theorem async_cache_hit_id_not_fresh:
  "a_render_id (fst (render_async (example_api_env 2000) example_request
      (worker_iteration example_worker_env example_capture_env
         (snd (render_async (example_api_env 1000) example_request empty_valkey))))) =
   a_render_id (fst (render_async (example_api_env 1000) example_request empty_valkey)) \<and>
   a_render_id (fst (render_async (example_api_env 2000) example_request
      (worker_iteration example_worker_env example_capture_env
         (snd (render_async (example_api_env 1000) example_request empty_valkey))))) \<noteq>
   generate_render_id (sha256_hexdigest (example_api_env 2000)) (time_ns (example_api_env 2000))
     (req_voice_id example_request) (req_speed example_request) (req_text example_request) \<and>
   a_status (fst (render_async (example_api_env 2000) example_request
      (worker_iteration example_worker_env example_capture_env
         (snd (render_async (example_api_env 1000) example_request empty_valkey))))) = Completed"
proof -
  have r: "render_id example_result = ''0001:dlrow olleH:00.1:1V''"
    by (simp add: example_result_def)
  have g: "generate_render_id (sha256_hexdigest (example_api_env 2000)) (time_ns (example_api_env 2000))
     (req_voice_id example_request) (req_speed example_request) (req_text example_request) =
     ''0002:dlrow olleH:00.1:1V''"
    by (simp add: example_api_env_def example_request_def example_rid)
  have a1: "a_render_id (fst (render_async (example_api_env 1000) example_request empty_valkey)) =
     ''0001:dlrow olleH:00.1:1V''"
    unfolding example_async_first by simp
  have hit: "get_cached_result (generate_cache_key (sha256_hexdigest (example_api_env 2000))
       (req_voice_id example_request) (req_speed example_request) (req_text example_request))
     (worker_iteration example_worker_env example_capture_env
        (snd (render_async (example_api_env 1000) example_request empty_valkey))) =
     Some example_result"
    unfolding example_worker_pass
    by (simp add: example_api_env_def example_request_def example_key get_cached_result_def)
  show ?thesis
    unfolding render_async_hit[OF hit] a1 g by (simp add: r)
qed

theorem async_cache_hit_reuses_cached_id_witness:
  "get_cached_result (generate_cache_key (sha256_hexdigest (example_api_env 2000))
       (req_voice_id example_request) (req_speed example_request) (req_text example_request))
     (empty_valkey\<lparr>cache := [''avatar:cache:dlrow olleH:00.1'' \<mapsto> example_result]\<rparr>) =
     Some example_result \<and>
   a_render_id (fst (render_async (example_api_env 2000) example_request
     (empty_valkey\<lparr>cache := [''avatar:cache:dlrow olleH:00.1'' \<mapsto> example_result]\<rparr>))) =
     ''0001:dlrow olleH:00.1:1V'' \<and>
   response_valid example_result \<and>
   get_render_status ''0001:dlrow olleH:00.1:1V''
     (snd (render_async (example_api_env 2000) example_request
     (empty_valkey\<lparr>cache := [''avatar:cache:dlrow olleH:00.1'' \<mapsto> example_result]\<rparr>))) =
     Found example_result"
proof -
  have a: "get_cached_result (generate_cache_key (sha256_hexdigest (example_api_env 2000))
       (req_voice_id example_request) (req_speed example_request) (req_text example_request))
     (empty_valkey\<lparr>cache := [''avatar:cache:dlrow olleH:00.1'' \<mapsto> example_result]\<rparr>) =
     Some example_result"
    by (simp add: example_api_env_def example_request_def example_key get_cached_result_def)
  have r: "render_id example_result = ''0001:dlrow olleH:00.1:1V''"
    by (simp add: example_result_def)
  have v: "response_valid example_result"
    by (simp add: response_valid_def example_result_def)
  from async_cache_hit_reuses_cached_id[OF a] a v show ?thesis
    by (auto simp: r)
qed

section \<open>Queues: proofs\<close>

lemma brpop_render:
  "render_queue s = q @ [j] \<Longrightarrow> brpop s = Some ((JOB_QUEUE_KEY, j), s\<lparr>render_queue := q\<rparr>)"
  by (simp add: brpop_def)

lemma keys_distinct: "JOB_QUEUE_KEY \<noteq> CAPTURE_JOB_QUEUE_KEY"
  by (simp add: JOB_QUEUE_KEY_def CAPTURE_JOB_QUEUE_KEY_def)

text \<open>
  The render queue is first-in-first-out: whatever the pops have yielded from it so far,
  followed by what is still queued (oldest at the right end), is the sequence of render
  jobs in the order they were enqueued.
\<close>

lemma queue_step_render_fifo:
  assumes "queue_step x (s, out) = (s', out')"
  shows "popped_from JOB_QUEUE_KEY out' @ rev (render_queue s') =
         popped_from JOB_QUEUE_KEY out @ rev (render_queue s) @ enqueued_render [x]"
proof (cases x)
  case (EnqueueRender j)
  with assms show ?thesis by (auto simp: enqueue_job_def)
next
  case (PushCapture j)
  with assms show ?thesis
    by (auto simp: push_job_def keys_distinct keys_distinct[symmetric])
next
  case WorkerPop
  show ?thesis
  proof (cases "render_queue s = []")
    case True
    with WorkerPop assms show ?thesis
      by (auto simp: brpop_def popped_from_def keys_distinct keys_distinct[symmetric]
          split: if_splits)
  next
    case False
    then obtain q j where q: "render_queue s = q @ [j]"
      by (metis rev_exhaust)
    with WorkerPop assms show ?thesis
      by (auto simp: brpop_render[OF q] popped_from_def)
  qed
qed

lemma enqueued_render_append: "enqueued_render (xs @ ys) = enqueued_render xs @ enqueued_render ys"
  by (induction xs rule: enqueued_render.induct) auto

lemma queue_run_render_fifo:
  "queue_run xs (s, out) = (s', out') \<Longrightarrow>
   popped_from JOB_QUEUE_KEY out' @ rev (render_queue s') =
   popped_from JOB_QUEUE_KEY out @ rev (render_queue s) @ enqueued_render xs"
proof (induction xs arbitrary: s out)
  case Nil
  then show ?case by simp
next
  case (Cons x xs)
  obtain s1 out1 where st: "queue_step x (s, out) = (s1, out1)" by (cases "queue_step x (s, out)")
  with Cons.prems have "queue_run xs (s1, out1) = (s', out')" by simp
  from Cons.IH[OF this] queue_step_render_fifo[OF st]
  show ?case using enqueued_render_append[of "[x]" xs] by simp
qed

lemma render_queue_fifo:
  "queue_run xs (empty_valkey, []) = (s', out') \<Longrightarrow>
   popped_from JOB_QUEUE_KEY out' @ rev (render_queue s') = enqueued_render xs"
  using queue_run_render_fifo[of xs empty_valkey "[]" s' out']
  by (simp add: empty_valkey_def popped_from_def)

text \<open>
  C5. The capture queue is not first-in-first-out: Capture Intake appends at the right
  end (RPUSH) and the worker pops at the right end (BRPOP). Two capture jobs pushed one
  after the other, then two pops: the second job comes out first.
\<close>

theorem capture_queue_pops_newest_first:
  "popped_from CAPTURE_JOB_QUEUE_KEY
     (snd (queue_run
        [PushCapture (CaptureJob (example_capture_job ''A'')),
         PushCapture (CaptureJob (example_capture_job ''B'')), WorkerPop, WorkerPop]
        (empty_valkey, []))) =
   [CaptureJob (example_capture_job ''B''), CaptureJob (example_capture_job ''A'')]"
  by (simp add: push_job_def brpop_def empty_valkey_def popped_from_def keys_distinct[symmetric])

section \<open>The life cycle of a ResultRecord: proofs\<close>













section \<open>Capture progress and logs: proofs\<close>






















end
